theory Spec2Isabelle
  imports Complex_Main "HOL-Library.Word"
begin

section \<open>Numbers\<close>

text \<open>
  Both programs compute on floating-point numbers (Python \<^verbatim>\<open>float\<close> in
  \<^verbatim>\<open>sample_readable.py\<close>, \<^verbatim>\<open>numpy.float32\<close> in \<^verbatim>\<open>sample.py\<close>). A
  finite float is modelled by the real number it denotes. Comparison with a number,
  multiplication by \<open>-1\<close> and assignment of an integer are exact on floats, so they are
  the same operations on the reals. Addition and multiplication are modelled without
  their rounding. Infinities and NaN are outside the model: the specification takes a
  non-finite position or velocity for a violation of the contract of the pipeline.
\<close>

definition py_int :: "real \<Rightarrow> int" where
  \<comment> \<open>Python's \<^verbatim>\<open>int(x)\<close> on a float, and \<^verbatim>\<open>astype(np.int32)\<close>: the fraction is dropped.\<close>
  "py_int v = (if 0 \<le> v then \<lfloor>v\<rfloor> else \<lceil>v\<rceil>)"

section \<open>\<^verbatim>\<open>sample_readable.py\<close>: domain\<close>

record Vector2 =
  vec_x :: real
  vec_y :: real

definition add :: "Vector2 \<Rightarrow> Vector2 \<Rightarrow> Vector2" where
  "add self other = \<lparr>vec_x = vec_x self + vec_x other, vec_y = vec_y self + vec_y other\<rparr>"

definition scale :: "Vector2 \<Rightarrow> real \<Rightarrow> Vector2" where
  "scale self factor = \<lparr>vec_x = vec_x self * factor, vec_y = vec_y self * factor\<rparr>"

record Bounds =
  width :: int
  height :: int

text \<open>
  \<^verbatim>\<open>Bounds.clamp_and_reflect\<close>: the two \<^verbatim>\<open>if\<close>/\<^verbatim>\<open>elif\<close> chains, first the one
  on \<open>x\<close> and \<open>vx\<close>, then the one on \<open>y\<close> and \<open>vy\<close>.
\<close>

definition clamp_and_reflect :: "Bounds \<Rightarrow> Vector2 \<Rightarrow> Vector2 \<Rightarrow> Vector2 \<times> Vector2" where
  "clamp_and_reflect self pos vel =
     (let x = vec_x pos; y = vec_y pos;
          vx = vec_x vel; vy = vec_y vel;
          (x, vx) =
            (if x < 0 then (0, vx * (- 1))
             else if x > of_int (width self - 1) then (of_int (width self - 1), vx * (- 1))
             else (x, vx));
          (y, vy) =
            (if y < 0 then (0, vy * (- 1))
             else if y > of_int (height self - 1) then (of_int (height self - 1), vy * (- 1))
             else (y, vy))
      in (\<lparr>vec_x = x, vec_y = y\<rparr>, \<lparr>vec_x = vx, vec_y = vy\<rparr>))"

record Color =
  col_r :: int
  col_g :: int
  col_b :: int

definition as_tuple :: "Color \<Rightarrow> int \<times> int \<times> int" where
  "as_tuple self = (col_r self, col_g self, col_b self)"

record Particle =
  position :: Vector2
  velocity :: Vector2
  color :: Color

definition step :: "Particle \<Rightarrow> Bounds \<Rightarrow> Particle" where
  "step self bnds =
     (let next_pos = add (position self) (velocity self);
          (bounded_pos, bounded_vel) = clamp_and_reflect bnds next_pos (velocity self)
      in \<lparr>position = bounded_pos, velocity = bounded_vel, color = color self\<rparr>)"

record ParticleSystem =
  particles :: "Particle list"
  bounds :: Bounds

definition update :: "ParticleSystem \<Rightarrow> ParticleSystem" where
  "update self = self\<lparr>particles := map (\<lambda>p. step p (bounds self)) (particles self)\<rparr>"

section \<open>\<^verbatim>\<open>sample_readable.py\<close>: application\<close>

text \<open>\<^verbatim>\<open>ParticleSimulation\<close> holds one \<^verbatim>\<open>ParticleSystem\<close> and forwards to it.\<close>

definition tick :: "ParticleSystem \<Rightarrow> ParticleSystem" where
  "tick system = update system"

primrec ticks :: "nat \<Rightarrow> ParticleSystem \<Rightarrow> ParticleSystem" where
  "ticks 0 system = system"
| "ticks (Suc n) system = tick (ticks n system)"

section \<open>\<^verbatim>\<open>sample_readable.py\<close>: infrastructure\<close>

text \<open>
  A \<^verbatim>\<open>pygame.Surface\<close> is modelled by its size and the colour of each pixel. The two
  methods the program calls follow pygame's documentation: \<^verbatim>\<open>fill\<close> sets every pixel
  of the surface, and \<^verbatim>\<open>set_at\<close> sets one pixel and has no effect when the position
  is outside the area of the surface. Coordinates that are not pixels of the surface
  keep the value the model started with.
\<close>

record Surface =
  surf_w :: int
  surf_h :: int
  pixel :: "int \<times> int \<Rightarrow> int \<times> int \<times> int"

definition inside :: "Surface \<Rightarrow> int \<times> int \<Rightarrow> bool" where
  "inside s c = (0 \<le> fst c \<and> fst c < surf_w s \<and> 0 \<le> snd c \<and> snd c < surf_h s)"

definition fill :: "Surface \<Rightarrow> int \<times> int \<times> int \<Rightarrow> Surface" where
  "fill s rgb = s\<lparr>pixel := (\<lambda>c. if inside s c then rgb else pixel s c)\<rparr>"

definition set_at :: "Surface \<Rightarrow> int \<times> int \<Rightarrow> int \<times> int \<times> int \<Rightarrow> Surface" where
  "set_at s c rgb = (if inside s c then s\<lparr>pixel := (pixel s)(c := rgb)\<rparr> else s)"

text \<open>\<^verbatim>\<open>PygameRenderer\<close>: the state is the screen.\<close>

definition clear :: "Surface \<Rightarrow> Surface" where
  "clear screen = fill screen (0, 0, 0)"

definition pixel_of :: "Particle \<Rightarrow> int \<times> int" where
  \<comment> \<open>the first argument of \<^verbatim>\<open>set_at\<close> in \<^verbatim>\<open>draw\<close>\<close>
  "pixel_of p = (py_int (vec_x (position p)), py_int (vec_y (position p)))"

fun draw :: "Surface \<Rightarrow> Particle list \<Rightarrow> Surface" where
  "draw screen [] = screen"
| "draw screen (p # ps) = draw (set_at screen (pixel_of p) (as_tuple (color p))) ps"

text \<open>
  One iteration of \<^verbatim>\<open>GameLoop.run\<close> after the events are polled: \<^verbatim>\<open>tick\<close>,
  \<^verbatim>\<open>clear\<close>, \<^verbatim>\<open>draw\<close>. Presenting the screen and pacing the clock change neither
  the particles nor the pixels.
\<close>

definition frame :: "ParticleSystem \<times> Surface \<Rightarrow> ParticleSystem \<times> Surface" where
  "frame st =
     (let simulation = tick (fst st);
          screen = clear (snd st);
          screen = draw screen (particles simulation)
      in (simulation, screen))"

primrec frames :: "nat \<Rightarrow> ParticleSystem \<times> Surface \<Rightarrow> ParticleSystem \<times> Surface" where
  "frames 0 st = st"
| "frames (Suc n) st = frame (frames n st)"

section \<open>\<^verbatim>\<open>sample_readable.py\<close>: composition root\<close>

text \<open>
  The random generator is modelled by its outcomes. One call of \<^verbatim>\<open>random_particle\<close>
  draws four times from \<^verbatim>\<open>random.random()\<close>, which returns a float in \<open>[0, 1)\<close>, and
  three times from \<^verbatim>\<open>random.randrange(256)\<close>, which returns an integer in
  \<open>[0, 256)\<close>, in this order.
\<close>

record Draws =
  u_px :: real
  u_py :: real
  u_vx :: real
  u_vy :: real
  k_r :: int
  k_g :: int
  k_b :: int

definition valid_draws :: "Draws \<Rightarrow> bool" where
  "valid_draws d =
     (0 \<le> u_px d \<and> u_px d < 1 \<and> 0 \<le> u_py d \<and> u_py d < 1 \<and>
      0 \<le> u_vx d \<and> u_vx d < 1 \<and> 0 \<le> u_vy d \<and> u_vy d < 1 \<and>
      0 \<le> k_r d \<and> k_r d < 256 \<and> 0 \<le> k_g d \<and> k_g d < 256 \<and> 0 \<le> k_b d \<and> k_b d < 256)"

definition random_particle :: "Bounds \<Rightarrow> Draws \<Rightarrow> Particle" where
  "random_particle bnds d =
     (let pos = \<lparr>vec_x = u_px d * of_int (width bnds), vec_y = u_py d * of_int (height bnds)\<rparr>;
          vel = \<lparr>vec_x = (u_vx d - 0.5) * 4.2, vec_y = (u_vy d - 0.5) * 4.2\<rparr>;
          col = \<lparr>col_r = k_r d, col_g = k_g d, col_b = k_b d\<rparr>
      in \<lparr>position = pos, velocity = vel, color = col\<rparr>)"

text \<open>
  \<^verbatim>\<open>build_system\<close> calls \<^verbatim>\<open>random_particle\<close> once for each element of
  \<^verbatim>\<open>range(count)\<close>, which is empty when \<open>count\<close> is not positive; \<open>rng i\<close> holds the
  outcomes of the \<open>i\<close>-th call. Neither \<^verbatim>\<open>build_system\<close> nor the constructors of
  \<^verbatim>\<open>Bounds\<close> and \<^verbatim>\<open>ParticleSystem\<close> contain a check or a \<^verbatim>\<open>raise\<close>, so the
  result is never an error.
\<close>

datatype error = ConfigurationError

definition build_system :: "int \<Rightarrow> Bounds \<Rightarrow> (nat \<Rightarrow> Draws) \<Rightarrow> error + ParticleSystem" where
  "build_system count bnds rng =
     Inr \<lparr>particles = map (\<lambda>i. random_particle bnds (rng i)) [0..<nat count], bounds = bnds\<rparr>"

section \<open>\<^verbatim>\<open>sample.py\<close>\<close>

definition COUNT :: int where
  "COUNT = 50000"

definition W :: int where
  "W = 960"

definition H :: int where
  "H = 540"

text \<open>The arrays of the module: one entry for each particle.\<close>

record Arrays =
  P_X :: "real list"
  P_Y :: "real list"
  V_X :: "real list"
  V_Y :: "real list"
  COLOR :: "(8 word \<times> 8 word \<times> 8 word) list"

definition shaped :: "Arrays \<Rightarrow> bool" where
  \<comment> \<open>all arrays have one length, as the arrays created by the module have\<close>
  "shaped s =
     (length (P_Y s) = length (P_X s) \<and> length (V_X s) = length (P_X s) \<and>
      length (V_Y s) = length (P_X s) \<and> length (COLOR s) = length (P_X s))"

text \<open>
  The initial arrays, from the outcomes of the five calls of \<^verbatim>\<open>np.random.rand\<close>, each
  of them \<open>COUNT\<close> numbers (or triples of numbers) in \<open>[0, 1)\<close>. The first four are
  recorded after \<^verbatim>\<open>astype(np.float32)\<close>, which rounds to the nearest float32 and so
  can turn a number just below \<open>1\<close> into \<open>1\<close>.
\<close>

record NpDraws =
  r_px :: "real list"
  r_py :: "real list"
  r_vx :: "real list"
  r_vy :: "real list"
  r_color :: "(real \<times> real \<times> real) list"

definition init_arrays :: "NpDraws \<Rightarrow> Arrays" where
  "init_arrays d =
     \<lparr>P_X = map (\<lambda>u. u * of_int W) (r_px d),
      P_Y = map (\<lambda>u. u * of_int H) (r_py d),
      V_X = map (\<lambda>u. (u - 0.5) * 4.2) (r_vx d),
      V_Y = map (\<lambda>u. (u - 0.5) * 4.2) (r_vy d),
      COLOR = map (\<lambda>(a, b, c). (word_of_int (py_int (a * 255)), word_of_int (py_int (b * 255)),
                               word_of_int (py_int (c * 255)))) (r_color d)\<rparr>"

definition unit_closed :: "real list \<Rightarrow> bool" where
  "unit_closed us = (length us = nat COUNT \<and> list_all (\<lambda>u. 0 \<le> u \<and> u \<le> 1) us)"

definition valid_np_draws :: "NpDraws \<Rightarrow> bool" where
  "valid_np_draws d =
     (unit_closed (r_px d) \<and> unit_closed (r_py d) \<and> unit_closed (r_vx d) \<and> unit_closed (r_vy d) \<and>
      length (r_color d) = nat COUNT \<and>
      list_all (\<lambda>(a, b, c). 0 \<le> a \<and> a < 1 \<and> 0 \<le> b \<and> b < 1 \<and> 0 \<le> c \<and> c < 1) (r_color d))"

text \<open>\<^verbatim>\<open>P_X += V_X\<close> and \<^verbatim>\<open>P_Y += V_Y\<close>.\<close>

definition update_positions :: "Arrays \<Rightarrow> Arrays" where
  "update_positions s =
     (let s = s\<lparr>P_X := map2 (+) (P_X s) (V_X s)\<rparr>;
          s = s\<lparr>P_Y := map2 (+) (P_Y s) (V_Y s)\<rparr>
      in s)"

definition negate_where :: "bool list \<Rightarrow> real list \<Rightarrow> real list" where
  \<comment> \<open>\<^verbatim>\<open>V[mask] *= -1\<close>\<close>
  "negate_where msk v = map2 (\<lambda>m a. if m then a * (- 1) else a) msk v"

definition np_clip :: "real list \<Rightarrow> real \<Rightarrow> real \<Rightarrow> real list" where
  \<comment> \<open>\<^verbatim>\<open>np.clip(a, a_min, a_max)\<close> is \<^verbatim>\<open>minimum(a_max, maximum(a, a_min))\<close>\<close>
  "np_clip a a_min a_max = map (\<lambda>v. min a_max (max v a_min)) a"

text \<open>
  The boundary bounce of the main loop. It reads the globals \<open>W\<close> and \<open>H\<close>, which are
  passed here as \<open>w\<close> and \<open>h\<close>; the program runs it as \<open>loop_update\<close> below.
\<close>

definition boundary_bounce :: "int \<Rightarrow> int \<Rightarrow> Arrays \<Rightarrow> Arrays" where
  "boundary_bounce w h s =
     (let mask_x_low = map (\<lambda>v. v < 0) (P_X s);
          mask_x_high = map (\<lambda>v. v > of_int (w - 1)) (P_X s);
          s = s\<lparr>V_X := negate_where (map2 (\<or>) mask_x_low mask_x_high) (V_X s)\<rparr>;
          s = s\<lparr>P_X := np_clip (P_X s) 0 (of_int (w - 1))\<rparr>;
          mask_y_low = map (\<lambda>v. v < 0) (P_Y s);
          mask_y_high = map (\<lambda>v. v > of_int (h - 1)) (P_Y s);
          s = s\<lparr>V_Y := negate_where (map2 (\<or>) mask_y_low mask_y_high) (V_Y s)\<rparr>;
          s = s\<lparr>P_Y := np_clip (P_Y s) 0 (of_int (h - 1))\<rparr>
      in s)"

text \<open>
  The part of one iteration of the main loop that assigns to the arrays. The rest of
  the iteration reads \<open>P_X\<close>, \<open>P_Y\<close> and \<open>COLOR\<close> to fill the pixel array and assigns
  to none of them.
\<close>

definition loop_update :: "Arrays \<Rightarrow> Arrays" where
  "loop_update s = boundary_bounce W H (update_positions s)"

primrec loop_updates :: "nat \<Rightarrow> Arrays \<Rightarrow> Arrays" where
  "loop_updates 0 s = s"
| "loop_updates (Suc n) s = loop_update (loop_updates n s)"



section \<open>The rule and the invariant of the specification\<close>

text \<open>
  The rule of the specification for one axis, in the specification's words: below \<open>0\<close>
  the position becomes \<open>0\<close> and the velocity is negated; above \<open>axisSize - 1\<close> the
  position becomes \<open>axisSize - 1\<close> and the velocity is negated; otherwise nothing changes.
\<close>

definition reflect_axis_spec :: "int \<Rightarrow> real \<Rightarrow> real \<Rightarrow> real \<times> real" where
  "reflect_axis_spec axisSize p v =
     (if p < 0 then (0, - v)
      else if p > of_int axisSize - 1 then (of_int axisSize - 1, - v)
      else (p, v))"

text \<open>
  The invariant of the specification: \<open>0 \<le> position_x \<le> width - 1\<close> and
  \<open>0 \<le> position_y \<le> height - 1\<close>.
\<close>

definition in_bounds :: "Bounds \<Rightarrow> Vector2 \<Rightarrow> bool" where
  "in_bounds b pos =
     (0 \<le> vec_x pos \<and> vec_x pos \<le> of_int (width b - 1) \<and>
      0 \<le> vec_y pos \<and> vec_y pos \<le> of_int (height b - 1))"

section \<open>Concrete inputs\<close>

definition demo_bounds :: Bounds where
  "demo_bounds = \<lparr>width = 960, height = 540\<rparr>"

definition demo_particle :: Particle where
  "demo_particle =
     \<lparr>position = \<lparr>vec_x = 958.5, vec_y = 0.25\<rparr>, velocity = \<lparr>vec_x = 3, vec_y = - 2\<rparr>,
      color = \<lparr>col_r = 255, col_g = 0, col_b = 0\<rparr>\<rparr>"

definition demo_other :: Particle where
  "demo_other =
     \<lparr>position = \<lparr>vec_x = 958.75, vec_y = 0.5\<rparr>, velocity = \<lparr>vec_x = 0, vec_y = 0\<rparr>,
      color = \<lparr>col_r = 0, col_g = 255, col_b = 0\<rparr>\<rparr>"


definition demo_system :: ParticleSystem where
  "demo_system = \<lparr>particles = [demo_particle, demo_other], bounds = demo_bounds\<rparr>"

definition demo_screen :: Surface where
  "demo_screen = \<lparr>surf_w = 960, surf_h = 540, pixel = (\<lambda>c. (7, 7, 7))\<rparr>"

definition demo_arrays :: Arrays where
  "demo_arrays =
     \<lparr>P_X = [958.5, 958.75], P_Y = [0.25, 0.5], V_X = [3, 0], V_Y = [- 2, 0],
      COLOR = [(255, 0, 0), (0, 255, 0)]\<rparr>"

text \<open>Outcomes of the random generator with the first position draw close to \<open>1\<close>.\<close>

definition edge_draws :: Draws where
  "edge_draws =
     \<lparr>u_px = 1023 / 1024, u_py = 1 / 2, u_vx = 1 / 4, u_vy = 3 / 4, k_r = 1, k_g = 2, k_b = 3\<rparr>"

definition edge_rng :: "nat \<Rightarrow> Draws" where
  "edge_rng i = edge_draws"

definition edge_np_draws :: NpDraws where
  "edge_np_draws =
     \<lparr>r_px = replicate (nat COUNT) 1, r_py = replicate (nat COUNT) (1 / 2),
      r_vx = replicate (nat COUNT) 0, r_vy = replicate (nat COUNT) 1,
      r_color = replicate (nat COUNT) (0, 1 / 2, 3 / 4)\<rparr>"

definition edge_position :: Vector2 where
  "edge_position = \<lparr>vec_x = 0, vec_y = 539\<rparr>"

definition edge_velocity :: Vector2 where
  "edge_velocity = \<lparr>vec_x = - 2, vec_y = 3\<rparr>"

definition edge_arrays :: Arrays where
  "edge_arrays =
     \<lparr>P_X = [- 1, 961, 500], P_Y = [0, 539, 540], V_X = [- 2, 3, 1], V_Y = [- 1, 1, 2],
      COLOR = [(255, 0, 0), (0, 255, 0), (0, 0, 255)]\<rparr>"

definition stray_position :: Vector2 where
  "stray_position = \<lparr>vec_x = 961.5, vec_y = - 1.75\<rparr>"

definition stray_velocity :: Vector2 where
  "stray_velocity = \<lparr>vec_x = 3, vec_y = - 2\<rparr>"

section \<open>Boundary reflection\<close>

subsection \<open>Bounds.clamp_and_reflect, by component\<close>

lemma cr_pos_x:
  "vec_x (fst (clamp_and_reflect b pos vel)) =
     (if vec_x pos < 0 then 0
      else if vec_x pos > of_int (width b - 1) then of_int (width b - 1) else vec_x pos)"
  by (simp add: clamp_and_reflect_def Let_def split: prod.splits)

lemma cr_pos_y:
  "vec_y (fst (clamp_and_reflect b pos vel)) =
     (if vec_y pos < 0 then 0
      else if vec_y pos > of_int (height b - 1) then of_int (height b - 1) else vec_y pos)"
  by (simp add: clamp_and_reflect_def Let_def split: prod.splits)

lemma cr_vel_x:
  "vec_x (snd (clamp_and_reflect b pos vel)) =
     (if vec_x pos < 0 \<or> vec_x pos > of_int (width b - 1) then - vec_x vel else vec_x vel)"
  by (simp add: clamp_and_reflect_def Let_def split: prod.splits)

lemma cr_vel_y:
  "vec_y (snd (clamp_and_reflect b pos vel)) =
     (if vec_y pos < 0 \<or> vec_y pos > of_int (height b - 1) then - vec_y vel else vec_y vel)"
  by (simp add: clamp_and_reflect_def Let_def split: prod.splits)

lemma Vector2_eqI: "vec_x (a::Vector2) = vec_x b \<Longrightarrow> vec_y a = vec_y b \<Longrightarrow> a = b"
  by simp

subsection \<open>The array update of sample.py, by index\<close>

lemma len_up: "shaped s \<Longrightarrow> shaped (update_positions s) \<and> length (P_X (update_positions s)) = length (P_X s)"
  by (simp add: shaped_def update_positions_def Let_def)

lemma len_bb: "shaped s \<Longrightarrow> shaped (boundary_bounce w h s) \<and> length (P_X (boundary_bounce w h s)) = length (P_X s)"
  by (simp add: shaped_def boundary_bounce_def Let_def negate_where_def np_clip_def)


lemma bb_nth:
  assumes "shaped s" "i < length (P_X s)"
  shows "P_X (boundary_bounce w h s) ! i = min (of_int (w - 1)) (max (P_X s ! i) 0)"
    and "P_Y (boundary_bounce w h s) ! i = min (of_int (h - 1)) (max (P_Y s ! i) 0)"
    and "V_X (boundary_bounce w h s) ! i =
           (if P_X s ! i < 0 \<or> P_X s ! i > of_int (w - 1) then - (V_X s ! i) else V_X s ! i)"
    and "V_Y (boundary_bounce w h s) ! i =
           (if P_Y s ! i < 0 \<or> P_Y s ! i > of_int (h - 1) then - (V_Y s ! i) else V_Y s ! i)"
    and "COLOR (boundary_bounce w h s) = COLOR s"
  using assms by (simp_all add: shaped_def boundary_bounce_def Let_def negate_where_def np_clip_def)

subsection \<open>The invariant\<close>

lemma cr_in_bounds:
  "1 \<le> width b \<Longrightarrow> 1 \<le> height b \<Longrightarrow> in_bounds b (fst (clamp_and_reflect b pos vel))"
  by (simp add: in_bounds_def cr_pos_x cr_pos_y)

lemma step_position: "position (step p b) = fst (clamp_and_reflect b (add (position p) (velocity p)) (velocity p))"
  by (simp add: step_def Let_def split: prod.splits)

lemma step_velocity: "velocity (step p b) = snd (clamp_and_reflect b (add (position p) (velocity p)) (velocity p))"
  by (simp add: step_def Let_def split: prod.splits)

lemma step_color: "color (step p b) = color p"
  by (simp add: step_def Let_def split: prod.splits)

lemma bounds_tick: "bounds (tick sys) = bounds sys"
  by (simp add: tick_def update_def)

lemma particles_tick: "particles (tick sys) = map (\<lambda>p. step p (bounds sys)) (particles sys)"
  by (simp add: tick_def update_def)

lemma fst_frame: "fst (frame st) = tick (fst st)"
  by (simp add: frame_def Let_def)

lemma fst_frames: "fst (frames n st) = ticks n (fst st)"
  by (induction n) (simp_all add: fst_frame)

lemma bounds_ticks: "bounds (ticks n sys) = bounds sys"
  by (induction n) (simp_all add: bounds_tick)

lemma tick_in_bounds:
  assumes "1 \<le> width (bounds sys)" "1 \<le> height (bounds sys)" "p \<in> set (particles (tick sys))"
  shows "in_bounds (bounds sys) (position p)"
  using assms by (auto simp: particles_tick step_position cr_in_bounds)

lemma ticks_in_bounds:
  assumes "1 \<le> width (bounds sys)" "1 \<le> height (bounds sys)" "1 \<le> f"
    "p \<in> set (particles (ticks f sys))"
  shows "in_bounds (bounds sys) (position p)"
proof -
  from \<open>1 \<le> f\<close> obtain n where f: "f = Suc n" by (cases f) auto
  have "in_bounds (bounds (ticks n sys)) (position p)"
    using assms f by (intro tick_in_bounds) (simp_all add: bounds_ticks)
  then show ?thesis by (simp add: bounds_ticks)
qed

lemma shaped_loop_update: "shaped s \<Longrightarrow> shaped (loop_update s)"
  by (simp add: loop_update_def len_up len_bb)

lemma length_loop_update: "shaped s \<Longrightarrow> length (P_X (loop_update s)) = length (P_X s)"
  by (simp add: loop_update_def len_up len_bb)

lemma shaped_loop_updates: "shaped s \<Longrightarrow> shaped (loop_updates n s)"
  by (induction n) (simp_all add: shaped_loop_update)

lemma length_loop_updates: "shaped s \<Longrightarrow> length (P_X (loop_updates n s)) = length (P_X s)"
  by (induction n) (simp_all add: length_loop_update shaped_loop_updates)

lemma bb_in_bounds:
  assumes "shaped s" "i < length (P_X s)" "1 \<le> w" "1 \<le> h"
  shows "in_bounds \<lparr>width = w, height = h\<rparr>
           \<lparr>vec_x = P_X (boundary_bounce w h s) ! i, vec_y = P_Y (boundary_bounce w h s) ! i\<rparr>"
  using assms by (simp add: in_bounds_def bb_nth)

lemma loop_update_in_bounds:
  assumes "shaped s" "i < length (P_X s)"
  shows "in_bounds \<lparr>width = W, height = H\<rparr>
           \<lparr>vec_x = P_X (loop_update s) ! i, vec_y = P_Y (loop_update s) ! i\<rparr>"
  unfolding loop_update_def using assms
  by (intro bb_in_bounds) (simp_all add: len_up W_def H_def)

lemma loop_updates_in_bounds:
  assumes "shaped s" "1 \<le> f" "i < length (P_X s)"
  shows "in_bounds \<lparr>width = W, height = H\<rparr>
           \<lparr>vec_x = P_X (loop_updates f s) ! i, vec_y = P_Y (loop_updates f s) ! i\<rparr>"
proof -
  from \<open>1 \<le> f\<close> obtain n where f: "f = Suc n" by (cases f) auto
  show ?thesis
    using assms unfolding f loop_updates.simps
    by (intro loop_update_in_bounds) (simp_all add: shaped_loop_updates length_loop_updates)
qed

subsection \<open>The two updates agree\<close>




subsection \<open>Reflecting twice\<close>

lemma prod_eqI2: "fst a = fst b \<Longrightarrow> snd a = snd b \<Longrightarrow> a = b"
  by (simp add: prod_eq_iff)

lemma cr_idem:
  assumes "1 \<le> width b" "1 \<le> height b"
  shows "clamp_and_reflect b (fst (clamp_and_reflect b pos vel)) (snd (clamp_and_reflect b pos vel))
         = clamp_and_reflect b pos vel"
  using assms
  by (intro prod_eqI2 Vector2_eqI) (simp_all add: cr_pos_x cr_pos_y cr_vel_x cr_vel_y)

lemma Arrays_eqI:
  "P_X (a::Arrays) = P_X b \<Longrightarrow> P_Y a = P_Y b \<Longrightarrow> V_X a = V_X b \<Longrightarrow> V_Y a = V_Y b \<Longrightarrow>
   COLOR a = COLOR b \<Longrightarrow> a = b"
  by simp

lemma bb_idem:
  assumes "shaped s" "1 \<le> w" "1 \<le> h"
  shows "boundary_bounce w h (boundary_bounce w h s) = boundary_bounce w h s"
proof -
  let ?t = "boundary_bounce w h s"
  have sh: "shaped ?t" and len: "length (P_X ?t) = length (P_X s)"
    using assms by (simp_all add: len_bb)
  have len2: "length (P_X (boundary_bounce w h ?t)) = length (P_X s)"
    using sh len by (simp add: len_bb)
  have sh2: "shaped (boundary_bounce w h ?t)" using sh by (simp add: len_bb)
  show ?thesis
  proof (rule Arrays_eqI)
    show "P_X (boundary_bounce w h ?t) = P_X ?t"
      using assms len len2 by (intro nth_equalityI) (simp_all add: bb_nth [OF sh] bb_nth [OF assms(1)])
    show "P_Y (boundary_bounce w h ?t) = P_Y ?t"
      using assms len len2 sh sh2
      by (intro nth_equalityI) (simp_all add: bb_nth [OF sh] bb_nth [OF assms(1)] shaped_def)
    show "V_X (boundary_bounce w h ?t) = V_X ?t"
      using assms len len2 sh sh2
      by (intro nth_equalityI) (simp_all add: bb_nth [OF sh] bb_nth [OF assms(1)] shaped_def)
    show "V_Y (boundary_bounce w h ?t) = V_Y ?t"
      using assms len len2 sh sh2
      by (intro nth_equalityI) (simp_all add: bb_nth [OF sh] bb_nth [OF assms(1)] shaped_def)
    show "COLOR (boundary_bounce w h ?t) = COLOR ?t"
      by (simp add: bb_nth(5) [OF sh, of 0] boundary_bounce_def Let_def)
  qed
qed

subsection \<open>Speed and colour\<close>

lemma step_speed:
  "\<bar>vec_x (velocity (step p b))\<bar> = \<bar>vec_x (velocity p)\<bar> \<and>
   \<bar>vec_y (velocity (step p b))\<bar> = \<bar>vec_y (velocity p)\<bar>"
  by (simp add: step_velocity cr_vel_x cr_vel_y)

lemma loop_update_speed:
  assumes "shaped s"
  shows "map abs (V_X (loop_update s)) = map abs (V_X s) \<and>
         map abs (V_Y (loop_update s)) = map abs (V_Y s)"
proof -
  let ?u = "update_positions s"
  have sh: "shaped ?u" and len: "length (P_X ?u) = length (P_X s)"
    using assms by (simp_all add: len_up)
  have shb: "shaped (boundary_bounce W H ?u)" and lenb: "length (P_X (boundary_bounce W H ?u)) = length (P_X s)"
    using sh len by (simp_all add: len_bb)
  have vx: "V_X ?u = V_X s" and vy: "V_Y ?u = V_Y s"
    by (simp_all add: update_positions_def Let_def)
  have "map abs (V_X (boundary_bounce W H ?u)) = map abs (V_X s)"
    using assms sh shb len lenb
    by (intro nth_equalityI) (simp_all add: shaped_def bb_nth [OF sh] vx)
  moreover have "map abs (V_Y (boundary_bounce W H ?u)) = map abs (V_Y s)"
    using assms sh shb len lenb
    by (intro nth_equalityI) (simp_all add: shaped_def bb_nth [OF sh] vy)
  ultimately show ?thesis by (simp add: loop_update_def)
qed

lemma color_ticks: "map color (particles (ticks n sys)) = map color (particles sys)"
  by (induction n) (simp_all add: particles_tick step_color comp_def)

lemma color_loop_update: "COLOR (loop_update s) = COLOR s"
  by (simp add: loop_update_def boundary_bounce_def update_positions_def Let_def)

lemma color_loop_updates: "COLOR (loop_updates n s) = COLOR s"
  by (induction n) (simp_all add: color_loop_update)

section \<open>Rendering\<close>



lemma py_int_range_strict:
  "0 \<le> v \<Longrightarrow> v < of_int n \<Longrightarrow> 0 \<le> py_int v \<and> py_int v \<le> n - 1"
  unfolding py_int_def by (auto simp: floor_less_iff) 












section \<open>Construction\<close>

lemma velocity_draw_bound:
  "0 \<le> u \<Longrightarrow> u \<le> 1 \<Longrightarrow> \<bar>(u - 0.5) * 4.2\<bar> \<le> (2.1::real)"
  by argo

lemma random_particle_ranges:
  assumes "1 \<le> width b" "1 \<le> height b" "valid_draws d"
  shows "0 \<le> vec_x (position (random_particle b d))"
    and "vec_x (position (random_particle b d)) < of_int (width b)"
    and "0 \<le> vec_y (position (random_particle b d))"
    and "vec_y (position (random_particle b d)) < of_int (height b)"
    and "\<bar>vec_x (velocity (random_particle b d))\<bar> \<le> 2.1"
    and "\<bar>vec_y (velocity (random_particle b d))\<bar> \<le> 2.1"
proof -
  have w: "(0::real) < of_int (width b)" and h: "(0::real) < of_int (height b)"
    using assms by simp_all
  have u: "0 \<le> u_px d" "u_px d < 1" "0 \<le> u_py d" "u_py d < 1"
    "0 \<le> u_vx d" "u_vx d < 1" "0 \<le> u_vy d" "u_vy d < 1"
    using assms(3) by (simp_all add: valid_draws_def)
  show "0 \<le> vec_x (position (random_particle b d))"
    using u w by (simp add: random_particle_def Let_def)
  show "0 \<le> vec_y (position (random_particle b d))"
    using u h by (simp add: random_particle_def Let_def)
  have "u_px d * of_int (width b) < 1 * of_int (width b)"
    using u w by (intro mult_strict_right_mono)
  then show "vec_x (position (random_particle b d)) < of_int (width b)"
    by (simp add: random_particle_def Let_def)
  have "u_py d * of_int (height b) < 1 * of_int (height b)"
    using u h by (intro mult_strict_right_mono)
  then show "vec_y (position (random_particle b d)) < of_int (height b)"
    by (simp add: random_particle_def Let_def)
  have "\<bar>(u_vx d - 0.5) * 4.2\<bar> \<le> 2.1"
    using u by (intro velocity_draw_bound) simp_all
  then show "\<bar>vec_x (velocity (random_particle b d))\<bar> \<le> 2.1"
    by (simp add: random_particle_def Let_def)
  have "\<bar>(u_vy d - 0.5) * 4.2\<bar> \<le> 2.1"
    using u by (intro velocity_draw_bound) simp_all
  then show "\<bar>vec_y (velocity (random_particle b d))\<bar> \<le> 2.1"
    by (simp add: random_particle_def Let_def)
qed

lemma build_system_particles:
  "build_system count b rng = Inr sys \<Longrightarrow> p \<in> set (particles sys) \<Longrightarrow>
   \<exists>i. p = random_particle b (rng i)"
  by (auto simp: build_system_def)

lemma unit_closed_nth:
  "unit_closed us \<Longrightarrow> i < nat COUNT \<Longrightarrow> 0 \<le> us ! i \<and> us ! i \<le> 1"
  by (simp add: unit_closed_def list_all_length)

lemma init_arrays_shaped:
  "valid_np_draws d \<Longrightarrow> shaped (init_arrays d) \<and> length (P_X (init_arrays d)) = nat COUNT"
  by (simp add: valid_np_draws_def unit_closed_def shaped_def init_arrays_def)

lemma init_arrays_ranges:
  assumes "valid_np_draws d" "i < nat COUNT"
  shows "0 \<le> P_X (init_arrays d) ! i \<and> P_X (init_arrays d) ! i \<le> of_int W \<and>
         0 \<le> P_Y (init_arrays d) ! i \<and> P_Y (init_arrays d) ! i \<le> of_int H \<and>
         \<bar>V_X (init_arrays d) ! i\<bar> \<le> 2.1 \<and> \<bar>V_Y (init_arrays d) ! i\<bar> \<le> 2.1"
proof -
  have len: "length (r_px d) = nat COUNT" "length (r_py d) = nat COUNT"
    "length (r_vx d) = nat COUNT" "length (r_vy d) = nat COUNT"
    using assms(1) by (simp_all add: valid_np_draws_def unit_closed_def)
  have px: "0 \<le> r_px d ! i \<and> r_px d ! i \<le> 1" and py: "0 \<le> r_py d ! i \<and> r_py d ! i \<le> 1"
    and vx: "0 \<le> r_vx d ! i \<and> r_vx d ! i \<le> 1" and vy: "0 \<le> r_vy d ! i \<and> r_vy d ! i \<le> 1"
    using assms by (simp_all add: valid_np_draws_def unit_closed_nth)
  have "r_px d ! i * 960 \<le> 1 * 960" "r_py d ! i * 540 \<le> 1 * 540"
    using px py by simp_all
  moreover have "\<bar>(r_vx d ! i - 0.5) * 4.2\<bar> \<le> 2.1" "\<bar>(r_vy d ! i - 0.5) * 4.2\<bar> \<le> 2.1"
    using vx vy by (blast intro: velocity_draw_bound)+
  ultimately show ?thesis
    using assms(2) len px py by (simp add: init_arrays_def W_def H_def)
qed

section \<open>Concrete runs\<close>

lemma demo_frame:
  "particles (fst (frames (Suc 0) (demo_system, demo_screen))) =
     [\<lparr>position = \<lparr>vec_x = 959, vec_y = 0\<rparr>, velocity = \<lparr>vec_x = - 3, vec_y = 2\<rparr>,
       color = \<lparr>col_r = 255, col_g = 0, col_b = 0\<rparr>\<rparr>, demo_other]"
  by (simp add: fst_frame particles_tick demo_system_def demo_bounds_def demo_particle_def
      demo_other_def step_def add_def clamp_and_reflect_def Let_def)

lemma demo_loop:
  "loop_update demo_arrays =
     \<lparr>P_X = [959, 958.75], P_Y = [0, 0.5], V_X = [- 3, 0], V_Y = [2, 0],
      COLOR = [(255, 0, 0), (0, 255, 0)]\<rparr>"
  by (simp add: loop_update_def boundary_bounce_def update_positions_def negate_where_def
      np_clip_def demo_arrays_def W_def H_def Let_def)

lemma shaped_demo: "shaped demo_arrays"
  by (simp add: shaped_def demo_arrays_def)

lemma shaped_edge: "shaped edge_arrays"
  by (simp add: shaped_def edge_arrays_def)

lemma stray_reflect:
  "clamp_and_reflect demo_bounds stray_position stray_velocity =
     (\<lparr>vec_x = 959, vec_y = 0\<rparr>, \<lparr>vec_x = - 3, vec_y = 2\<rparr>)"
  by (simp add: clamp_and_reflect_def demo_bounds_def stray_position_def stray_velocity_def Let_def)



lemma edge_particle:
  "random_particle demo_bounds edge_draws =
     \<lparr>position = \<lparr>vec_x = 959.0625, vec_y = 270\<rparr>, velocity = \<lparr>vec_x = - 1.05, vec_y = 1.05\<rparr>,
      color = \<lparr>col_r = 1, col_g = 2, col_b = 3\<rparr>\<rparr>"
  by (simp add: random_particle_def demo_bounds_def edge_draws_def Let_def)

lemma valid_edge_draws: "valid_draws edge_draws"
  by (simp add: valid_draws_def edge_draws_def)

lemma edge_build:
  "build_system 1 demo_bounds edge_rng =
     Inr \<lparr>particles = [random_particle demo_bounds edge_draws], bounds = demo_bounds\<rparr>"
  by (simp add: build_system_def edge_rng_def)

lemma valid_edge_np: "valid_np_draws edge_np_draws"
  by (simp add: valid_np_draws_def unit_closed_def edge_np_draws_def list_all_iff COUNT_def)

section \<open>The claims\<close>

text \<open>
  C1. From the first frame on, every particle is inside the bounds after the frame:
  \<open>0 \<le> position_x \<le> width - 1\<close> and \<open>0 \<le> position_y \<le> height - 1\<close>. The state
  after frame \<open>f\<close> is the state at the start of frame \<open>f + 1\<close>, since a frame of
  \<^verbatim>\<open>GameLoop.run\<close> includes the rendering. The bounds are positive, as the data model
  of the specification has them; the first conjunct is the readable program, the
  second the arrays of \<^verbatim>\<open>sample.py\<close>.
\<close>

theorem frame_keeps_positions_in_bounds:
  assumes "1 \<le> f"
  shows "(1 \<le> width (bounds sys) \<and> 1 \<le> height (bounds sys) \<longrightarrow>
            (\<forall>p \<in> set (particles (fst (frames f (sys, screen)))).
               in_bounds (bounds sys) (position p))) \<and>
         (shaped s \<longrightarrow>
            (\<forall>i < length (P_X (loop_updates f s)).
               in_bounds \<lparr>width = W, height = H\<rparr>
                 \<lparr>vec_x = P_X (loop_updates f s) ! i, vec_y = P_Y (loop_updates f s) ! i\<rparr>))"
  using assms
  by (auto simp: fst_frames length_loop_updates intro: ticks_in_bounds loop_updates_in_bounds)

theorem frame_keeps_positions_in_bounds_witness:
  "(1::nat) \<le> Suc 0 \<and> 1 \<le> width (bounds demo_system) \<and> 1 \<le> height (bounds demo_system) \<and>
   shaped demo_arrays \<and>
   in_bounds (bounds demo_system) \<lparr>vec_x = 959, vec_y = 0\<rparr> \<and>
   in_bounds \<lparr>width = W, height = H\<rparr>
     \<lparr>vec_x = P_X (loop_updates (Suc 0) demo_arrays) ! 0,
      vec_y = P_Y (loop_updates (Suc 0) demo_arrays) ! 0\<rparr>"
proof -
  have f: "(1::nat) \<le> Suc 0" by simp
  have b: "1 \<le> width (bounds demo_system) \<and> 1 \<le> height (bounds demo_system)"
    by (simp add: demo_system_def demo_bounds_def)
  note inst = frame_keeps_positions_in_bounds [OF f, of demo_system demo_screen demo_arrays]
  have "\<forall>p \<in> set (particles (fst (frames (Suc 0) (demo_system, demo_screen)))).
          in_bounds (bounds demo_system) (position p)"
    using inst b by blast
  then have r: "in_bounds (bounds demo_system) \<lparr>vec_x = 959, vec_y = 0\<rparr>"
    unfolding demo_frame by simp
  have len: "0 < length (P_X (loop_updates (Suc 0) demo_arrays))"
    by (simp add: demo_loop)
  have v: "in_bounds \<lparr>width = W, height = H\<rparr>
     \<lparr>vec_x = P_X (loop_updates (Suc 0) demo_arrays) ! 0,
      vec_y = P_Y (loop_updates (Suc 0) demo_arrays) ! 0\<rparr>"
    using inst shaped_demo len by blast
  show ?thesis using f b shaped_demo r v by blast
qed

text \<open>
  C2. On each axis the reflection does what the rule \<open>reflect_axis_spec\<close> says: below
  \<open>0\<close> the position becomes \<open>0\<close> and the velocity changes sign, above
  \<open>axisSize - 1\<close> the position becomes \<open>axisSize - 1\<close> and the velocity changes
  sign, otherwise both stay. This holds of \<^verbatim>\<open>Bounds.clamp_and_reflect\<close> for every
  bounds and of the masks and \<^verbatim>\<open>np.clip\<close> of \<^verbatim>\<open>sample.py\<close> at its \<open>W\<close> and
  \<open>H\<close>. A position equal to \<open>0\<close> or to \<open>axisSize - 1\<close>, with \<open>axisSize\<close> positive,
  changes nothing on its axis.
\<close>

theorem reflection_rule:
  "clamp_and_reflect b pos vel =
     (\<lparr>vec_x = fst (reflect_axis_spec (width b) (vec_x pos) (vec_x vel)),
       vec_y = fst (reflect_axis_spec (height b) (vec_y pos) (vec_y vel))\<rparr>,
      \<lparr>vec_x = snd (reflect_axis_spec (width b) (vec_x pos) (vec_x vel)),
       vec_y = snd (reflect_axis_spec (height b) (vec_y pos) (vec_y vel))\<rparr>) \<and>
   (shaped s \<longrightarrow>
      (\<forall>i < length (P_X s).
         (P_X (boundary_bounce W H s) ! i, V_X (boundary_bounce W H s) ! i) =
           reflect_axis_spec W (P_X s ! i) (V_X s ! i) \<and>
         (P_Y (boundary_bounce W H s) ! i, V_Y (boundary_bounce W H s) ! i) =
           reflect_axis_spec H (P_Y s ! i) (V_Y s ! i))) \<and>
   (1 \<le> width b \<and> (vec_x pos = 0 \<or> vec_x pos = of_int (width b) - 1) \<longrightarrow>
      vec_x (fst (clamp_and_reflect b pos vel)) = vec_x pos \<and>
      vec_x (snd (clamp_and_reflect b pos vel)) = vec_x vel) \<and>
   (1 \<le> height b \<and> (vec_y pos = 0 \<or> vec_y pos = of_int (height b) - 1) \<longrightarrow>
      vec_y (fst (clamp_and_reflect b pos vel)) = vec_y pos \<and>
      vec_y (snd (clamp_and_reflect b pos vel)) = vec_y vel)"
proof (intro conjI impI allI)
  show "clamp_and_reflect b pos vel =
     (\<lparr>vec_x = fst (reflect_axis_spec (width b) (vec_x pos) (vec_x vel)),
       vec_y = fst (reflect_axis_spec (height b) (vec_y pos) (vec_y vel))\<rparr>,
      \<lparr>vec_x = snd (reflect_axis_spec (width b) (vec_x pos) (vec_x vel)),
       vec_y = snd (reflect_axis_spec (height b) (vec_y pos) (vec_y vel))\<rparr>)"
    by (simp add: clamp_and_reflect_def reflect_axis_spec_def Let_def)
next
  fix i assume "shaped s" "i < length (P_X s)"
  then show "(P_X (boundary_bounce W H s) ! i, V_X (boundary_bounce W H s) ! i) =
           reflect_axis_spec W (P_X s ! i) (V_X s ! i)"
    by (simp add: bb_nth reflect_axis_spec_def W_def)
next
  fix i assume "shaped s" "i < length (P_X s)"
  then show "(P_Y (boundary_bounce W H s) ! i, V_Y (boundary_bounce W H s) ! i) =
           reflect_axis_spec H (P_Y s ! i) (V_Y s ! i)"
    by (simp add: bb_nth reflect_axis_spec_def H_def)
next
  assume "1 \<le> width b \<and> (vec_x pos = 0 \<or> vec_x pos = of_int (width b) - 1)"
  then show "vec_x (fst (clamp_and_reflect b pos vel)) = vec_x pos"
    by (auto simp: cr_pos_x)
next
  assume "1 \<le> width b \<and> (vec_x pos = 0 \<or> vec_x pos = of_int (width b) - 1)"
  then show "vec_x (snd (clamp_and_reflect b pos vel)) = vec_x vel"
    by (auto simp: cr_vel_x)
next
  assume "1 \<le> height b \<and> (vec_y pos = 0 \<or> vec_y pos = of_int (height b) - 1)"
  then show "vec_y (fst (clamp_and_reflect b pos vel)) = vec_y pos"
    by (auto simp: cr_pos_y)
next
  assume "1 \<le> height b \<and> (vec_y pos = 0 \<or> vec_y pos = of_int (height b) - 1)"
  then show "vec_y (snd (clamp_and_reflect b pos vel)) = vec_y vel"
    by (auto simp: cr_vel_y)
qed

theorem reflection_rule_witness:
  "shaped edge_arrays \<and> (1::nat) < length (P_X edge_arrays) \<and>
   1 \<le> width demo_bounds \<and> vec_x edge_position = 0 \<and>
   1 \<le> height demo_bounds \<and> vec_y edge_position = of_int (height demo_bounds) - 1 \<and>
   clamp_and_reflect demo_bounds edge_position edge_velocity = (edge_position, edge_velocity) \<and>
   (P_X (boundary_bounce W H edge_arrays) ! 1, V_X (boundary_bounce W H edge_arrays) ! 1) = (959, - 3)"
proof -
  note inst = reflection_rule [of demo_bounds edge_position edge_velocity edge_arrays]
  have len: "(1::nat) < length (P_X edge_arrays)" by (simp add: edge_arrays_def)
  have hx: "1 \<le> width demo_bounds \<and> (vec_x edge_position = 0 \<or> vec_x edge_position = of_int (width demo_bounds) - 1)"
    by (simp add: demo_bounds_def edge_position_def)
  have hy: "1 \<le> height demo_bounds \<and> (vec_y edge_position = 0 \<or> vec_y edge_position = of_int (height demo_bounds) - 1)"
    by (simp add: demo_bounds_def edge_position_def)
  have x: "vec_x (fst (clamp_and_reflect demo_bounds edge_position edge_velocity)) = vec_x edge_position \<and>
      vec_x (snd (clamp_and_reflect demo_bounds edge_position edge_velocity)) = vec_x edge_velocity"
    using inst hx by blast
  have y: "vec_y (fst (clamp_and_reflect demo_bounds edge_position edge_velocity)) = vec_y edge_position \<and>
      vec_y (snd (clamp_and_reflect demo_bounds edge_position edge_velocity)) = vec_y edge_velocity"
    using inst hy by blast
  have c: "clamp_and_reflect demo_bounds edge_position edge_velocity = (edge_position, edge_velocity)"
    using x y by (intro prod_eqI2 Vector2_eqI) simp_all
  have "(P_X (boundary_bounce W H edge_arrays) ! 1, V_X (boundary_bounce W H edge_arrays) ! 1) =
           reflect_axis_spec W (P_X edge_arrays ! 1) (V_X edge_arrays ! 1)"
    using inst shaped_edge len by blast
  then have v: "(P_X (boundary_bounce W H edge_arrays) ! 1, V_X (boundary_bounce W H edge_arrays) ! 1) = (959, - 3)"
    by (simp add: reflect_axis_spec_def edge_arrays_def W_def)
  show ?thesis
    using shaped_edge len c v by (simp add: demo_bounds_def edge_position_def)
qed

text \<open>
  C7. Any number of frames leaves the colour of every particle and the number of
  particles as they were: in the readable program over whole iterations of
  \<^verbatim>\<open>GameLoop.run\<close>, in \<^verbatim>\<open>sample.py\<close> over the assignments of its loop, where
  \<open>COLOR\<close> and the length of every array stay.
\<close>

theorem frames_keep_colors_and_count:
  "map color (particles (fst (frames n st))) = map color (particles (fst st)) \<and>
   length (particles (fst (frames n st))) = length (particles (fst st)) \<and>
   (shaped s \<longrightarrow>
      COLOR (loop_updates n s) = COLOR s \<and> shaped (loop_updates n s) \<and>
      length (P_X (loop_updates n s)) = length (P_X s))"
proof -
  have c: "map color (particles (fst (frames n st))) = map color (particles (fst st))"
    by (simp add: fst_frames color_ticks)
  have "length (map color (particles (fst (frames n st)))) = length (map color (particles (fst st)))"
    by (simp only: c)
  then have l: "length (particles (fst (frames n st))) = length (particles (fst st))"
    by simp
  show ?thesis
    using c l by (simp add: color_loop_updates shaped_loop_updates length_loop_updates)
qed

theorem frames_keep_colors_and_count_witness:
  "shaped demo_arrays \<and>
   COLOR (loop_updates 3 demo_arrays) = [(255, 0, 0), (0, 255, 0)] \<and>
   length (P_X (loop_updates 3 demo_arrays)) = 2 \<and>
   map color (particles (fst (frames 3 (demo_system, demo_screen)))) =
     [\<lparr>col_r = 255, col_g = 0, col_b = 0\<rparr>, \<lparr>col_r = 0, col_g = 255, col_b = 0\<rparr>]"
  using frames_keep_colors_and_count [of 3 "(demo_system, demo_screen)" demo_arrays] shaped_demo
  by (simp add: demo_arrays_def demo_system_def demo_particle_def demo_other_def)



text \<open>
  C9. Reflecting twice is reflecting once, at positive bounds: applied to its own
  result, the reflection returns that result, position and velocity, in
  \<^verbatim>\<open>Bounds.clamp_and_reflect\<close> and in the boundary bounce of \<^verbatim>\<open>sample.py\<close>.
\<close>

theorem reflection_idempotent:
  assumes "1 \<le> width b" "1 \<le> height b"
  shows "clamp_and_reflect b (fst (clamp_and_reflect b pos vel)) (snd (clamp_and_reflect b pos vel)) =
           clamp_and_reflect b pos vel \<and>
         (shaped s \<longrightarrow>
            boundary_bounce (width b) (height b) (boundary_bounce (width b) (height b) s) =
              boundary_bounce (width b) (height b) s)"
  using assms by (simp add: cr_idem bb_idem)

theorem reflection_idempotent_witness:
  "1 \<le> width demo_bounds \<and> 1 \<le> height demo_bounds \<and> shaped edge_arrays \<and>
   clamp_and_reflect demo_bounds stray_position stray_velocity =
     (\<lparr>vec_x = 959, vec_y = 0\<rparr>, \<lparr>vec_x = - 3, vec_y = 2\<rparr>) \<and>
   clamp_and_reflect demo_bounds \<lparr>vec_x = 959, vec_y = 0\<rparr> \<lparr>vec_x = - 3, vec_y = 2\<rparr> =
     (\<lparr>vec_x = 959, vec_y = 0\<rparr>, \<lparr>vec_x = - 3, vec_y = 2\<rparr>) \<and>
   boundary_bounce 960 540 (boundary_bounce 960 540 edge_arrays) = boundary_bounce 960 540 edge_arrays"
proof -
  have w: "1 \<le> width demo_bounds" and h: "1 \<le> height demo_bounds"
    by (simp_all add: demo_bounds_def)
  note inst = reflection_idempotent [OF w h, of stray_position stray_velocity edge_arrays]
  have r: "clamp_and_reflect demo_bounds \<lparr>vec_x = 959, vec_y = 0\<rparr> \<lparr>vec_x = - 3, vec_y = 2\<rparr> =
     (\<lparr>vec_x = 959, vec_y = 0\<rparr>, \<lparr>vec_x = - 3, vec_y = 2\<rparr>)"
    using inst unfolding stray_reflect by simp
  have a: "boundary_bounce 960 540 (boundary_bounce 960 540 edge_arrays) = boundary_bounce 960 540 edge_arrays"
    using inst shaped_edge by (simp add: demo_bounds_def)
  show ?thesis using w h shaped_edge stray_reflect r a by blast
qed

text \<open>
  C10. A frame leaves the absolute value of each velocity component of each particle as
  it was: the reflection only changes a sign, and nothing else assigns a velocity.
\<close>

theorem frame_preserves_speed:
  "map (\<lambda>p. (\<bar>vec_x (velocity p)\<bar>, \<bar>vec_y (velocity p)\<bar>)) (particles (fst (frame st))) =
     map (\<lambda>p. (\<bar>vec_x (velocity p)\<bar>, \<bar>vec_y (velocity p)\<bar>)) (particles (fst st)) \<and>
   (shaped s \<longrightarrow>
      map abs (V_X (loop_update s)) = map abs (V_X s) \<and>
      map abs (V_Y (loop_update s)) = map abs (V_Y s))"
  by (simp add: fst_frame particles_tick step_speed loop_update_speed comp_def)

theorem frame_preserves_speed_witness:
  "shaped edge_arrays \<and>
   V_X (loop_update edge_arrays) = [2, - 3, 1] \<and> map abs (V_X (loop_update edge_arrays)) = [2, 3, 1] \<and>
   V_Y (loop_update edge_arrays) = [1, - 1, - 2] \<and> map abs (V_Y (loop_update edge_arrays)) = [1, 1, 2]"
proof -
  note inst = frame_preserves_speed [of "(demo_system, demo_screen)" edge_arrays]
  have "map abs (V_X (loop_update edge_arrays)) = map abs (V_X edge_arrays) \<and>
      map abs (V_Y (loop_update edge_arrays)) = map abs (V_Y edge_arrays)"
    using inst shaped_edge by blast
  then have a: "map abs (V_X (loop_update edge_arrays)) = [2, 3, 1] \<and>
     map abs (V_Y (loop_update edge_arrays)) = [1, 1, 2]"
    by (simp add: edge_arrays_def)
  have v: "V_X (loop_update edge_arrays) = [2, - 3, 1] \<and> V_Y (loop_update edge_arrays) = [1, - 1, - 2]"
    by (simp add: loop_update_def boundary_bounce_def update_positions_def negate_where_def
      np_clip_def edge_arrays_def W_def H_def Let_def)
  show ?thesis using shaped_edge a v by blast
qed





text \<open>
  C3, as the specification states it, asks for \<open>position_x \<le> width - 1\<close> right after
  construction. \<^verbatim>\<open>random_particle\<close> multiplies a draw from \<open>[0, 1)\<close> by \<open>width\<close>:
  with the draw \<open>1023/1024\<close> and \<open>width = 960\<close> the position is \<open>959.0625\<close>, above
  \<open>959\<close>. Every number of this run is a binary fraction, so the floats compute the
  same values.
\<close>

theorem construction_in_bounds_counterexample:
  "valid_draws edge_draws \<and>
   build_system 1 demo_bounds edge_rng =
     Inr \<lparr>particles = [random_particle demo_bounds edge_draws], bounds = demo_bounds\<rparr> \<and>
   vec_x (position (random_particle demo_bounds edge_draws)) = 959.0625 \<and>
   \<not> vec_x (position (random_particle demo_bounds edge_draws)) \<le> of_int (width demo_bounds - 1) \<and>
   \<not> in_bounds demo_bounds (position (random_particle demo_bounds edge_draws))"
proof -
  have x: "vec_x (position (random_particle demo_bounds edge_draws)) = 959.0625"
    unfolding edge_particle by simp
  have w: "width demo_bounds - 1 = 959" by (simp add: demo_bounds_def)
  have n: "\<not> vec_x (position (random_particle demo_bounds edge_draws)) \<le> of_int (width demo_bounds - 1)"
    unfolding x w by simp
  then have "\<not> in_bounds demo_bounds (position (random_particle demo_bounds edge_draws))"
    by (simp add: in_bounds_def)
  then show ?thesis
    using valid_edge_draws edge_build x n by blast
qed

text \<open>
  C3, amended. A population built by \<^verbatim>\<open>build_system\<close> at positive bounds has
  \<open>0 \<le> position_x < width\<close> and \<open>0 \<le> position_y < height\<close>, so that the pixel of
  every particle is in \<open>[0, width - 1] \<times> [0, height - 1]\<close>, and velocities of absolute
  value at most \<open>2.1\<close> on each axis. The arrays that \<^verbatim>\<open>sample.py\<close> creates have
  \<open>COUNT\<close> entries each, with \<open>0 \<le> P_X \<le> W\<close>, \<open>0 \<le> P_Y \<le> H\<close> and the same bound
  on the velocities.
\<close>

theorem construction_ranges:
  "(1 \<le> width b \<and> 1 \<le> height b \<and> (\<forall>i. valid_draws (rng i)) \<and>
    build_system count b rng = Inr sys \<longrightarrow>
      (\<forall>p \<in> set (particles sys).
         0 \<le> vec_x (position p) \<and> vec_x (position p) < of_int (width b) \<and>
         0 \<le> vec_y (position p) \<and> vec_y (position p) < of_int (height b) \<and>
         0 \<le> fst (pixel_of p) \<and> fst (pixel_of p) \<le> width b - 1 \<and>
         0 \<le> snd (pixel_of p) \<and> snd (pixel_of p) \<le> height b - 1 \<and>
         \<bar>vec_x (velocity p)\<bar> \<le> 2.1 \<and> \<bar>vec_y (velocity p)\<bar> \<le> 2.1)) \<and>
   (valid_np_draws d \<longrightarrow>
      shaped (init_arrays d) \<and> length (P_X (init_arrays d)) = nat COUNT \<and>
      (\<forall>i < nat COUNT.
         0 \<le> P_X (init_arrays d) ! i \<and> P_X (init_arrays d) ! i \<le> of_int W \<and>
         0 \<le> P_Y (init_arrays d) ! i \<and> P_Y (init_arrays d) ! i \<le> of_int H \<and>
         \<bar>V_X (init_arrays d) ! i\<bar> \<le> 2.1 \<and> \<bar>V_Y (init_arrays d) ! i\<bar> \<le> 2.1))"
proof (intro conjI impI ballI allI)
  fix p
  assume a: "1 \<le> width b \<and> 1 \<le> height b \<and> (\<forall>i. valid_draws (rng i)) \<and>
    build_system count b rng = Inr sys" and p: "p \<in> set (particles sys)"
  then obtain i where pi: "p = random_particle b (rng i)"
    using build_system_particles by blast
  have v: "valid_draws (rng i)" and w: "1 \<le> width b" and h: "1 \<le> height b" using a by simp_all
  note r = random_particle_ranges [OF w h v]
  show "0 \<le> vec_x (position p)" "vec_x (position p) < of_int (width b)"
    "0 \<le> vec_y (position p)" "vec_y (position p) < of_int (height b)"
    "\<bar>vec_x (velocity p)\<bar> \<le> 2.1" "\<bar>vec_y (velocity p)\<bar> \<le> 2.1"
    using r by (simp_all add: pi)
  show "0 \<le> fst (pixel_of p)" "fst (pixel_of p) \<le> width b - 1"
    using py_int_range_strict [OF r(1) r(2)] by (simp_all add: pixel_of_def pi)
  show "0 \<le> snd (pixel_of p)" "snd (pixel_of p) \<le> height b - 1"
    using py_int_range_strict [OF r(3) r(4)] by (simp_all add: pixel_of_def pi)
next
  assume "valid_np_draws d"
  then show "shaped (init_arrays d)" "length (P_X (init_arrays d)) = nat COUNT"
    by (simp_all add: init_arrays_shaped)
next
  fix i assume "valid_np_draws d" "i < nat COUNT"
  then show "0 \<le> P_X (init_arrays d) ! i" "P_X (init_arrays d) ! i \<le> of_int W"
    "0 \<le> P_Y (init_arrays d) ! i" "P_Y (init_arrays d) ! i \<le> of_int H"
    "\<bar>V_X (init_arrays d) ! i\<bar> \<le> 2.1" "\<bar>V_Y (init_arrays d) ! i\<bar> \<le> 2.1"
    using init_arrays_ranges by blast+
qed

theorem construction_ranges_witness:
  "1 \<le> width demo_bounds \<and> 1 \<le> height demo_bounds \<and> valid_draws (edge_rng 0) \<and>
   build_system 1 demo_bounds edge_rng =
     Inr \<lparr>particles = [random_particle demo_bounds edge_draws], bounds = demo_bounds\<rparr> \<and>
   vec_x (position (random_particle demo_bounds edge_draws)) < of_int (width demo_bounds) \<and>
   \<bar>vec_x (velocity (random_particle demo_bounds edge_draws))\<bar> \<le> 2.1 \<and>
   valid_np_draws edge_np_draws \<and> (0::nat) < nat COUNT \<and>
   P_X (init_arrays edge_np_draws) ! 0 \<le> of_int W \<and>
   P_X (init_arrays edge_np_draws) ! 0 = 960"
proof -
  note inst = construction_ranges [of demo_bounds edge_rng 1
      "\<lparr>particles = [random_particle demo_bounds edge_draws], bounds = demo_bounds\<rparr>" edge_np_draws]
  have b: "1 \<le> width demo_bounds \<and> 1 \<le> height demo_bounds" by (simp add: demo_bounds_def)
  have v: "\<forall>i. valid_draws (edge_rng i)" by (simp add: edge_rng_def valid_edge_draws)
  have "\<forall>p \<in> set [random_particle demo_bounds edge_draws].
         vec_x (position p) < of_int (width demo_bounds) \<and> \<bar>vec_x (velocity p)\<bar> \<le> 2.1"
    using inst b v edge_build by simp
  then have r: "vec_x (position (random_particle demo_bounds edge_draws)) < of_int (width demo_bounds) \<and>
   \<bar>vec_x (velocity (random_particle demo_bounds edge_draws))\<bar> \<le> 2.1"
    by simp
  have c: "(0::nat) < nat COUNT" by (simp add: COUNT_def)
  have n: "P_X (init_arrays edge_np_draws) ! 0 \<le> of_int W"
    using inst valid_edge_np c by blast
  have e: "P_X (init_arrays edge_np_draws) ! 0 = 960"
    using c by (simp add: init_arrays_def edge_np_draws_def W_def)
  show ?thesis
    using b v edge_build r valid_edge_np c n e by blast
qed



end
